theory Spec2Isabelle
  imports Main "HOL-Library.Sublist"
begin

section \<open>The store application of \<^verbatim>\<open>src/my_it_store/app.py\<close>\<close>

text \<open>
  The application is a Flask program over three SQLAlchemy tables. Each request handler
  is embedded as a function from the session and the database before the request to the
  reply, the session and the committed database after it. What a request draws from
  outside the program (the clock, werkzeug's password hashing, Python's float
  multiplication) is a parameter, collected in the record \<open>env\<close>.

  Conventions of the embedding:
  \<^item> a Python \<open>str\<close> is the list of its code points, so \<open>len\<close> is \<open>length\<close>;
  \<^item> a Python \<open>int\<close> is an \<open>int\<close>; a Python \<open>float\<close> is a value of the type
    parameter \<open>'f\<close>, which has its infinities and its NaN: the parameters \<open>fmul\<close>,
    \<open>is_nan\<close> and \<open>float_eq\<close> are the product of a float and a converted int, the
    test for NaN and Python's \<open>==\<close> on floats;
  \<^item> a commit binds the values of its statements to SQLite, which refuses an integer
    outside 64 bits (\<open>OverflowError\<close>) and stores a NaN as \<open>NULL\<close>, against
    \<open>nullable=False\<close> (\<open>IntegrityError\<close>); a value read from a row is one SQLite
    has stored, and is not tested again;
  \<^item> a table is the list of its rows in insertion order; a row is a record holding the
    columns of the model class, with the values the handlers store in them (only
    \<open>last_login\<close> is ever \<open>NULL\<close>);
  \<^item> the clock is read once for a request: every \<open>datetime.utcnow()\<close> of the request
    gives \<open>now\<close>;
  \<^item> the texts passed to \<open>flash\<close> are the constructors of \<open>msg\<close>, one for each
    literal of the source, named after what the literal says;
  \<^item> a form field that the handler converts with \<open>int(...)\<close> or \<open>float(...)\<close> is
    given as the result of the conversion, \<open>None\<close> where the conversion raises
    \<open>ValueError\<close>;
  \<^item> an unhandled exception or an abort ends the request with an \<open>error\<close> and without
    a commit, so the database stays as it was.
\<close>

subsection \<open>Data model (lines 20 to 55)\<close>

type_synonym pystr = "nat list"
type_synonym datetime = nat

definition py :: "string \<Rightarrow> pystr" where
  "py s = map of_char s"

record employee =
  e_id :: int
  username :: pystr
  password_hash :: pystr
  fullname :: pystr
  position :: pystr
  email :: pystr
  phone :: pystr
  e_created_at :: datetime
  last_login :: "datetime option"

record 'f product =
  p_id :: int
  name :: pystr
  description :: pystr
  price :: 'f
  stock :: int
  category :: pystr
  p_created_at :: datetime
  updated_at :: datetime

record 'f sale =
  s_id :: int
  product_id :: int
  employee_id :: int
  quantity :: int
  total_price :: 'f
  sale_date :: datetime

record 'f store =
  employees :: "employee list"
  products :: "'f product list"
  sales :: "'f sale list"

text \<open>
  The Flask session: the key \<open>"username"\<close> (absent is \<open>None\<close>) and the attribute
  \<open>permanent\<close>.
\<close>

record session =
  session_username :: "pystr option"
  permanent :: bool

text \<open>
  What one request reads from outside: \<open>datetime.utcnow()\<close>, werkzeug's
  \<open>generate_password_hash\<close> (with the salt it draws for this request) and
  \<open>check_password_hash\<close>, and the arithmetic of floats: the product of a float and
  an int that converts to a float, whether a float is NaN, and \<open>==\<close> on two floats.
\<close>

record 'f env =
  now :: datetime
  generate_password_hash :: "pystr \<Rightarrow> pystr"
  check_password_hash :: "pystr \<Rightarrow> pystr \<Rightarrow> bool"
  fmul :: "'f \<Rightarrow> int \<Rightarrow> 'f"
  is_nan :: "'f \<Rightarrow> bool"
  float_eq :: "'f \<Rightarrow> 'f \<Rightarrow> bool"

text \<open>
  The integers SQLite stores are those of 64 bits; binding another one raises
  \<open>OverflowError\<close>. Python converts an int to a float by rounding to the nearest
  double, ties to even, and raises \<open>OverflowError\<close> when the result is beyond the
  largest double \<open>2 ^ 1024 - 2 ^ 971\<close>: that is from \<open>2 ^ 1024 - 2 ^ 970\<close> on.
\<close>

definition sqlite_int :: "int \<Rightarrow> bool" where
  "sqlite_int n \<longleftrightarrow> - (2 ^ 63) \<le> n \<and> n < 2 ^ 63"

definition int_fits_float :: "int \<Rightarrow> bool" where
  "int_fits_float n \<longleftrightarrow> \<bar>n\<bar> < 2 ^ 1024 - 2 ^ 970"

subsection \<open>Requests and replies\<close>

datatype http_method = GET | POST

datatype category_tag = TagError | TagSuccess

text \<open>The flashed texts, in the order of their lines in the source (59 to 231).\<close>

datatype msg =
    PasswordTooShort
  | PasswordNeedsLower
  | PasswordNeedsUpper
  | PasswordNeedsDigit
  | PasswordSafe
  | PleaseLogIn
  | LoginSucceeded
  | InvalidCredentials
  | PasswordsDiffer
  | UsernameTaken
  | EmailTaken
  | RegisterSucceeded
  | ProductAdded
  | ProductUpdated
  | ProductDeleted
  | InsufficientStock
  | SaleRecorded
  | LoggedOut

datatype endpoint = EpHome | EpLogin | EpRegister | EpProducts | EpSales | EpAddSale

datatype 'f view =
    DashboardView "employee option" "'f product list" "'f sale list"
  | LoginView
  | RegisterView
  | ProductsView "'f product list"
  | AddProductView
  | EditProductView "'f product"
  | SalesView "'f sale list"
  | AddSaleView "'f product list"

datatype 'f reply = Redirect endpoint | Render "'f view"

record 'f response =
  flashes :: "(msg \<times> category_tag) list"
  body :: "'f reply"

text \<open>
  \<open>NotFound\<close> is the abort of \<open>get_or_404\<close>; the others are the exceptions no
  handler catches.
\<close>

datatype error =
  NotFound | ValueError | KeyError | AttributeError | IntegrityError | OverflowError

type_synonym 'f outcome = "(error + 'f response) \<times> session \<times> 'f store"

record login_form =
  l_username :: pystr
  l_password :: pystr

record register_form =
  r_username :: pystr
  r_password :: pystr
  r_confirm_password :: pystr
  r_fullname :: pystr
  r_position :: pystr
  r_email :: pystr
  r_phone :: pystr

record 'f product_form =
  f_name :: pystr
  f_description :: pystr
  f_price :: "'f option"
  f_stock :: "int option"
  f_category :: pystr

record sale_form =
  f_product_id :: "int option"
  f_quantity :: "int option"

datatype 'f request =
    Home
  | Login http_method login_form
  | Register http_method register_form
  | Products
  | AddProduct http_method "'f product_form"
  | EditProduct int http_method "'f product_form"
  | DeleteProduct int
  | Sales
  | AddSale http_method sale_form
  | Logout

definition flash_and :: "msg \<Rightarrow> category_tag \<Rightarrow> 'f reply \<Rightarrow> error + 'f response" where
  "flash_and m c r = Inr \<lparr>flashes = [(m, c)], body = r\<rparr>"

definition show_page :: "'f view \<Rightarrow> error + 'f response" where
  "show_page v = Inr \<lparr>flashes = [], body = Render v\<rparr>"

subsection \<open>Queries\<close>

text \<open>
  \<open>Employee.query.filter_by(username=u).first()\<close>, \<open>filter_by(email=m).first()\<close>
  and \<open>Product.query.get(i)\<close>: the first row that matches, or \<open>None\<close>.
\<close>

definition employee_by_username :: "'f store \<Rightarrow> pystr \<Rightarrow> employee option" where
  "employee_by_username db u = find (\<lambda>e. username e = u) (employees db)"

definition employee_by_email :: "'f store \<Rightarrow> pystr \<Rightarrow> employee option" where
  "employee_by_email db m = find (\<lambda>e. email e = m) (employees db)"

definition get_product :: "'f store \<Rightarrow> int \<Rightarrow> 'f product option" where
  "get_product db i = find (\<lambda>p. p_id p = i) (products db)"

text \<open>
  How \<open>get_or_404\<close> ends when no row has the key: the \<open>SELECT\<close> binds the key, so
  a key outside 64 bits raises \<open>OverflowError\<close>; for any other key the query finds
  nothing and the request is aborted with 404.
\<close>

definition lookup_failure :: "int \<Rightarrow> error" where
  "lookup_failure i = (if sqlite_int i then NotFound else OverflowError)"

text \<open>
  The integer primary key SQLite gives an inserted row: one more than the largest key of
  the table, 1 for an empty table.
\<close>

definition next_id :: "int list \<Rightarrow> int" where
  "next_id ids = foldr max ids 0 + 1"

text \<open>
  \<open>Sale.query.order_by(Sale.sale_date.desc())\<close>: latest first. The source leaves the
  order among the rows of one date to the database; SQLite keeps them in insertion order,
  as the stable sort does here.
\<close>

definition sales_desc :: "'f sale list \<Rightarrow> 'f sale list" where
  "sales_desc xs = sort_key (\<lambda>s. - int (sale_date s)) xs"

subsection \<open>Password policy (lines 57 to 66)\<close>

text \<open>
  \<open>re.search("[a-z]", s)\<close> succeeds when some code point of \<open>s\<close> lies between the
  two ends of the class; the three classes are a to z (97 to 122), A to Z (65 to 90)
  and 0 to 9 (48 to 57).
\<close>

definition re_search_class :: "nat \<Rightarrow> nat \<Rightarrow> pystr \<Rightarrow> bool" where
  "re_search_class lo hi s = list_ex (\<lambda>c. lo \<le> c \<and> c \<le> hi) s"

definition validate_password :: "pystr \<Rightarrow> bool \<times> msg" where
  "validate_password password =
     (if length password < 8 then (False, PasswordTooShort)
      else if \<not> re_search_class 97 122 password then (False, PasswordNeedsLower)
      else if \<not> re_search_class 65 90 password then (False, PasswordNeedsUpper)
      else if \<not> re_search_class 48 57 password then (False, PasswordNeedsDigit)
      else (True, PasswordSafe))"

subsection \<open>The access gate (lines 68 to 75)\<close>

definition login_required ::
  "(session \<Rightarrow> 'f store \<Rightarrow> 'f outcome) \<Rightarrow> session \<Rightarrow> 'f store \<Rightarrow> 'f outcome" where
  "login_required f sess db =
     (if session_username sess = None
      then (flash_and PleaseLogIn TagError (Redirect EpLogin), sess, db)
      else f sess db)"

subsection \<open>Handlers (lines 77 to 232)\<close>

text \<open>
  Each definition is the body of the function of the same name, without its decorator;
  \<open>handle\<close> below applies \<open>login_required\<close> where the source does. Reading
  \<open>session["username"]\<close> without the key raises \<open>KeyError\<close>.
\<close>

definition home :: "session \<Rightarrow> 'f store \<Rightarrow> 'f outcome" where
  "home sess db =
     (case session_username sess of
        None \<Rightarrow> (Inl KeyError, sess, db)
      | Some u \<Rightarrow>
          (show_page (DashboardView (employee_by_username db u) (products db)
             (take 5 (sales_desc (sales db)))), sess, db))"

definition login :: "'f env \<Rightarrow> http_method \<Rightarrow> login_form \<Rightarrow> session \<Rightarrow> 'f store \<Rightarrow> 'f outcome" where
  "login env m form sess db =
     (if m = POST then
        (case employee_by_username db (l_username form) of
           Some employee \<Rightarrow>
             if check_password_hash env (password_hash employee) (l_password form)
             then (flash_and LoginSucceeded TagSuccess (Redirect EpHome),
                   sess\<lparr>session_username := Some (l_username form), permanent := True\<rparr>,
                   db\<lparr>employees :=
                        map (\<lambda>e. if e_id e = e_id employee
                                  then e\<lparr>last_login := Some (now env)\<rparr> else e)
                          (employees db)\<rparr>)
             else (flash_and InvalidCredentials TagError (Render LoginView), sess, db)
         | None \<Rightarrow> (flash_and InvalidCredentials TagError (Render LoginView), sess, db))
      else (show_page LoginView, sess, db))"

definition register ::
  "'f env \<Rightarrow> http_method \<Rightarrow> register_form \<Rightarrow> session \<Rightarrow> 'f store \<Rightarrow> 'f outcome" where
  "register env m form sess db =
     (if m = POST then
        (case validate_password (r_password form) of
           (is_valid, msg) \<Rightarrow>
             if \<not> is_valid
             then (flash_and msg TagError (Redirect EpRegister), sess, db)
             else if r_password form \<noteq> r_confirm_password form
             then (flash_and PasswordsDiffer TagError (Redirect EpRegister), sess, db)
             else if employee_by_username db (r_username form) \<noteq> None
             then (flash_and UsernameTaken TagError (Redirect EpRegister), sess, db)
             else if employee_by_email db (r_email form) \<noteq> None
             then (flash_and EmailTaken TagError (Redirect EpRegister), sess, db)
             else
               (flash_and RegisterSucceeded TagSuccess (Redirect EpLogin), sess,
                db\<lparr>employees := employees db @
                     [\<lparr>e_id = next_id (map e_id (employees db)),
                       username = r_username form,
                       password_hash = generate_password_hash env (r_password form),
                       fullname = r_fullname form,
                       position = r_position form,
                       email = r_email form,
                       phone = r_phone form,
                       e_created_at = now env,
                       last_login = None\<rparr>]\<rparr>))
      else (show_page RegisterView, sess, db))"

definition products_page :: "session \<Rightarrow> 'f store \<Rightarrow> 'f outcome" where
  "products_page sess db = (show_page (ProductsView (products db)), sess, db)"

text \<open>
  The \<open>INSERT\<close> of line 163 binds the stock and the price. Binding comes before the
  statement runs, so an integer out of range is reported before a NaN price is refused
  by \<open>nullable=False\<close> (line 41).
\<close>

definition add_product ::
  "'f env \<Rightarrow> http_method \<Rightarrow> 'f product_form \<Rightarrow> session \<Rightarrow> 'f store \<Rightarrow> 'f outcome" where
  "add_product env m form sess db =
     (if m = POST then
        (case f_price form of
           None \<Rightarrow> (Inl ValueError, sess, db)
         | Some pr \<Rightarrow>
             (case f_stock form of
                None \<Rightarrow> (Inl ValueError, sess, db)
              | Some st \<Rightarrow>
                  if \<not> sqlite_int st then (Inl OverflowError, sess, db)
                  else if is_nan env pr then (Inl IntegrityError, sess, db)
                  else
                  (flash_and ProductAdded TagSuccess (Redirect EpProducts), sess,
                   db\<lparr>products := products db @
                        [\<lparr>p_id = next_id (map p_id (products db)),
                          name = f_name form,
                          description = f_description form,
                          price = pr,
                          stock = st,
                          category = f_category form,
                          p_created_at = now env,
                          updated_at = now env\<rparr>]\<rparr>)))
      else (show_page AddProductView, sess, db))"

text \<open>
  An \<open>UPDATE\<close> of a product row is issued at commit when a column of the loaded object
  has a new value; \<open>onupdate\<close> (line 45) then sets \<open>updated_at\<close>. The statement
  names the row by its primary key and binds the columns that have a new value: a new
  stock out of range raises \<open>OverflowError\<close>, a new price that is NaN is refused by
  \<open>nullable=False\<close> (line 41).
\<close>

definition update_product ::
  "'f env \<Rightarrow> 'f product \<Rightarrow> 'f product \<Rightarrow> 'f store \<Rightarrow> error + 'f store" where
  "update_product env old new db =
     (if new = old then Inr db
      else if stock new \<noteq> stock old \<and> \<not> sqlite_int (stock new) then Inl OverflowError
      else if price new \<noteq> price old \<and> is_nan env (price new) then Inl IntegrityError
      else Inr (db\<lparr>products :=
                map (\<lambda>p. if p_id p = p_id old then new\<lparr>updated_at := now env\<rparr> else p)
                  (products db)\<rparr>))"

text \<open>
  A column has a new value when the assigned value is not \<open>==\<close> to the loaded one;
  for the price that is \<open>float_eq\<close>, and a price that compares equal is left as it
  is stored.
\<close>

definition edit_product ::
  "'f env \<Rightarrow> int \<Rightarrow> http_method \<Rightarrow> 'f product_form \<Rightarrow> session \<Rightarrow> 'f store \<Rightarrow> 'f outcome" where
  "edit_product env i m form sess db =
     (case get_product db i of
        None \<Rightarrow> (Inl (lookup_failure i), sess, db)
      | Some product \<Rightarrow>
          if m = POST then
            (case f_price form of
               None \<Rightarrow> (Inl ValueError, sess, db)
             | Some pr \<Rightarrow>
                 (case f_stock form of
                    None \<Rightarrow> (Inl ValueError, sess, db)
                  | Some st \<Rightarrow>
                      (case update_product env product
                         (product\<lparr>name := f_name form,
                                   description := f_description form,
                                   price := (if float_eq env pr (price product)
                                             then price product else pr),
                                   stock := st,
                                   category := f_category form\<rparr>) db of
                         Inl e \<Rightarrow> (Inl e, sess, db)
                       | Inr db' \<Rightarrow>
                           (flash_and ProductUpdated TagSuccess (Redirect EpProducts),
                            sess, db'))))
          else (show_page (EditProductView product), sess, db))"

text \<open>
  \<open>db.session.delete(product)\<close> followed by \<open>commit\<close> (lines 187 and 188). The
  relationship of line 54 gives \<open>Product\<close> the collection \<open>sales\<close> and configures no
  delete cascade, so the unit of work first detaches the sales of the deleted product:
  it sets their \<open>product_id\<close> to \<open>NULL\<close>. The column is declared
  \<open>nullable=False\<close> (line 49): when the collection is not empty the \<open>UPDATE\<close> fails
  with \<open>IntegrityError\<close>, and nothing is committed. When it is empty the row is
  deleted.
\<close>

definition delete_product :: "int \<Rightarrow> session \<Rightarrow> 'f store \<Rightarrow> 'f outcome" where
  "delete_product i sess db =
     (case get_product db i of
        None \<Rightarrow> (Inl (lookup_failure i), sess, db)
      | Some product \<Rightarrow>
          if list_ex (\<lambda>s. product_id s = p_id product) (sales db)
          then (Inl IntegrityError, sess, db)
          else (flash_and ProductDeleted TagSuccess (Redirect EpProducts), sess,
                db\<lparr>products := filter (\<lambda>p. p_id p \<noteq> p_id product) (products db)\<rparr>))"

definition sales_page :: "session \<Rightarrow> 'f store \<Rightarrow> 'f outcome" where
  "sales_page sess db = (show_page (SalesView (sales_desc (sales db))), sess, db)"

text \<open>
  Line 211 converts the quantity to a float for the product, and raises
  \<open>OverflowError\<close> when it does not convert. The commit of line 221 issues the
  \<open>UPDATE\<close> of the product (when the stock has a new value) and then the
  \<open>INSERT\<close> of the sale, which binds the quantity and the total: a quantity out of
  range raises \<open>OverflowError\<close>, a total that is NaN is refused by \<open>nullable=False\<close>
  (line 52). A commit that fails stores nothing.
\<close>

definition add_sale ::
  "'f env \<Rightarrow> http_method \<Rightarrow> sale_form \<Rightarrow> session \<Rightarrow> 'f store \<Rightarrow> 'f outcome" where
  "add_sale env m form sess db =
     (if m = POST then
        (case f_product_id form of
           None \<Rightarrow> (Inl ValueError, sess, db)
         | Some pid \<Rightarrow>
             (case f_quantity form of
                None \<Rightarrow> (Inl ValueError, sess, db)
              | Some qty \<Rightarrow>
                  (case get_product db pid of
                     None \<Rightarrow> (Inl (lookup_failure pid), sess, db)
                   | Some product \<Rightarrow>
                       (case session_username sess of
                          None \<Rightarrow> (Inl KeyError, sess, db)
                        | Some u \<Rightarrow>
                            if stock product < qty
                            then (flash_and InsufficientStock TagError (Redirect EpAddSale),
                                  sess, db)
                            else if \<not> int_fits_float qty
                            then (Inl OverflowError, sess, db)
                            else
                              (case employee_by_username db u of
                                 None \<Rightarrow> (Inl AttributeError, sess, db)
                               | Some employee \<Rightarrow>
                                   (case update_product env product
                                      (product\<lparr>stock := stock product - qty\<rparr>) db of
                                      Inl e \<Rightarrow> (Inl e, sess, db)
                                    | Inr db' \<Rightarrow>
                                        if \<not> sqlite_int qty
                                        then (Inl OverflowError, sess, db)
                                        else if is_nan env (fmul env (price product) qty)
                                        then (Inl IntegrityError, sess, db)
                                        else
                                          (flash_and SaleRecorded TagSuccess
                                             (Redirect EpSales), sess,
                                           db'\<lparr>sales := sales db @
                                             [\<lparr>s_id = next_id (map s_id (sales db)),
                                               product_id = pid,
                                               employee_id = e_id employee,
                                               quantity = qty,
                                               total_price = fmul env (price product) qty,
                                               sale_date = now env\<rparr>]\<rparr>)))))))
      else (show_page (AddSaleView (products db)), sess, db))"

definition logout :: "session \<Rightarrow> 'f store \<Rightarrow> 'f outcome" where
  "logout sess db =
     (flash_and LoggedOut TagSuccess (Redirect EpLogin),
      sess\<lparr>session_username := None\<rparr>, db)"

text \<open>The routes with their decorators.\<close>

fun handle :: "'f env \<Rightarrow> 'f request \<Rightarrow> session \<Rightarrow> 'f store \<Rightarrow> 'f outcome" where
  "handle env Home = login_required home"
| "handle env (Login m form) = login env m form"
| "handle env (Register m form) = register env m form"
| "handle env Products = login_required products_page"
| "handle env (AddProduct m form) = login_required (add_product env m form)"
| "handle env (EditProduct i m form) = login_required (edit_product env i m form)"
| "handle env (DeleteProduct i) = login_required (delete_product i)"
| "handle env Sales = login_required sales_page"
| "handle env (AddSale m form) = login_required (add_sale env m form)"
| "handle env Logout = logout"

subsection \<open>Constraints of the schema\<close>

text \<open>
  The constraints the model classes declare: the primary keys (lines 21, 38 and 48) and
  the two unique columns of \<open>Employee\<close> (lines 22 and 26).
\<close>

definition valid_store :: "'f store \<Rightarrow> bool" where
  "valid_store db \<longleftrightarrow>
     distinct (map e_id (employees db)) \<and>
     distinct (map username (employees db)) \<and>
     distinct (map email (employees db)) \<and>
     distinct (map p_id (products db)) \<and>
     distinct (map s_id (sales db))"

text \<open>The routes decorated with \<open>login_required\<close> (lines 78, 146, 152, 169, 184, 193, 199).\<close>

fun protected :: "'f request \<Rightarrow> bool" where
  "protected Home = True"
| "protected (Login m form) = False"
| "protected (Register m form) = False"
| "protected Products = True"
| "protected (AddProduct m form) = True"
| "protected (EditProduct i m form) = True"
| "protected (DeleteProduct i) = True"
| "protected Sales = True"
| "protected (AddSale m form) = True"
| "protected Logout = False"

text \<open>The user of the session, when there is one, is a registered employee.\<close>

definition session_known :: "session \<Rightarrow> 'f store \<Rightarrow> bool" where
  "session_known sess db \<longleftrightarrow>
     (case session_username sess of
        None \<Rightarrow> True
      | Some u \<Rightarrow> employee_by_username db u \<noteq> None)"

subsection \<open>The password policy as the specification words it\<close>





subsection \<open>A sample shop\<close>

text \<open>
  Concrete data at which the theorems below are instantiated. In \<open>sample_env\<close> the
  floats are integers and the hash of a password is the password behind a zero. In
  \<open>ieee_env\<close> the floats are the integers with the two infinities and NaN; the
  \<open>vault\<close> holds a product of infinite price, as \<open>float("inf")\<close> on line 158 lets one
  be added.
\<close>

definition sample_env :: "int env" where
  "sample_env =
     \<lparr>now = 1000,
      generate_password_hash = (\<lambda>p. 0 # p),
      check_password_hash = (\<lambda>h p. h = 0 # p),
      fmul = (\<lambda>x q. x * q),
      is_nan = (\<lambda>x. False),
      float_eq = (\<lambda>x y. x = y)\<rparr>"

datatype xfloat = Fin int | PInf | MInf | NaN

fun xmul :: "xfloat \<Rightarrow> int \<Rightarrow> xfloat" where
  "xmul (Fin a) q = Fin (a * q)"
| "xmul PInf q = (if q = 0 then NaN else if 0 < q then PInf else MInf)"
| "xmul MInf q = (if q = 0 then NaN else if 0 < q then MInf else PInf)"
| "xmul NaN q = NaN"

definition ieee_env :: "xfloat env" where
  "ieee_env =
     \<lparr>now = 1000,
      generate_password_hash = (\<lambda>p. 0 # p),
      check_password_hash = (\<lambda>h p. h = 0 # p),
      fmul = xmul,
      is_nan = (\<lambda>x. x = NaN),
      float_eq = (\<lambda>x y. x = y \<and> x \<noteq> NaN)\<rparr>"

definition alice :: employee where
  "alice =
     \<lparr>e_id = 1, username = py ''alice'', password_hash = 0 # py ''Passw0rd'',
      fullname = py ''Alice A'', position = py ''clerk'', email = py ''alice@shop'',
      phone = py ''0123456789'', e_created_at = 10, last_login = None\<rparr>"

definition laptop :: "int product" where
  "laptop =
     \<lparr>p_id = 1, name = py ''laptop'', description = [], price = 500, stock = 3,
      category = py ''pc'', p_created_at = 20, updated_at = 20\<rparr>"

definition mouse :: "int product" where
  "mouse =
     \<lparr>p_id = 2, name = py ''mouse'', description = [], price = 20, stock = 10,
      category = py ''pc'', p_created_at = 21, updated_at = 21\<rparr>"

definition first_sale :: "int sale" where
  "first_sale =
     \<lparr>s_id = 1, product_id = 1, employee_id = 1, quantity = 2, total_price = 1000,
      sale_date = 30\<rparr>"

definition gold :: "xfloat product" where
  "gold =
     \<lparr>p_id = 1, name = py ''gold'', description = [], price = PInf, stock = 3,
      category = py ''bars'', p_created_at = 22, updated_at = 22\<rparr>"

definition vault :: "xfloat store" where
  "vault = \<lparr>employees = [alice], products = [gold], sales = []\<rparr>"

definition sample_store :: "int store" where
  "sample_store = \<lparr>employees = [alice], products = [laptop, mouse], sales = [first_sale]\<rparr>"

definition alice_session :: session where
  "alice_session = \<lparr>session_username = Some (py ''alice''), permanent = True\<rparr>"

definition no_session :: session where
  "no_session = \<lparr>session_username = None, permanent = False\<rparr>"

definition signup :: "pystr \<Rightarrow> pystr \<Rightarrow> pystr \<Rightarrow> register_form" where
  "signup u pw em =
     \<lparr>r_username = u, r_password = pw, r_confirm_password = pw, r_fullname = py ''N N'',
      r_position = py ''clerk'', r_email = em, r_phone = py ''0000000000''\<rparr>"

lemmas sample_defs =
  sample_env_def alice_def laptop_def mouse_def first_sale_def sample_store_def
  ieee_env_def gold_def vault_def
  alice_session_def no_session_def py_def
  get_product_def employee_by_username_def employee_by_email_def

section \<open>Properties\<close>

subsection \<open>Auxiliary facts\<close>

lemma foldr_max_ge: "i \<in> set ids \<Longrightarrow> i \<le> foldr max ids (0::int)"
  by (induction ids) auto

lemma next_id_fresh: "next_id ids \<notin> set ids"
  using foldr_max_ge [of "next_id ids" ids] by (auto simp: next_id_def)

lemma map_update_distinct:
  assumes "distinct (map f xs)" and "i < length xs" and "f (xs ! i) = k"
  shows "map (\<lambda>x. if f x = k then g x else x) xs = xs[i := g (xs ! i)]"
proof (rule nth_equalityI)
  show "length (map (\<lambda>x. if f x = k then g x else x) xs) = length (xs[i := g (xs ! i)])"
    by simp
next
  fix j assume j: "j < length (map (\<lambda>x. if f x = k then g x else x) xs)"
  then have jl: "j < length xs" by simp
  show "map (\<lambda>x. if f x = k then g x else x) xs ! j = xs[i := g (xs ! i)] ! j"
  proof (cases "j = i")
    case True
    with assms show ?thesis by simp
  next
    case False
    have "map f xs ! j \<noteq> map f xs ! i"
      using assms(1) assms(2) jl False by (simp add: nth_eq_iff_index_eq del: nth_map)
    with assms jl have "f (xs ! j) \<noteq> k" by simp
    with jl False show ?thesis by simp
  qed
qed

lemma find_index: "find P xs = Some p \<Longrightarrow> \<exists>i<length xs. xs ! i = p \<and> P p"
  by (auto simp: find_Some_iff)

lemma update_product_frame:
  "update_product env old new db = Inr db' \<Longrightarrow>
     employees db' = employees db \<and> sales db' = sales db"
  by (auto simp: update_product_def split: if_splits)

lemma update_product_ids:
  "p_id new = p_id old \<Longrightarrow> update_product env old new db = Inr db' \<Longrightarrow>
     map p_id (products db') = map p_id (products db)"
  by (auto simp: update_product_def split: if_splits)

lemma update_product_row:
  assumes "distinct (map p_id (products db))" and "get_product db i = Some old"
    and "update_product env old new db = Inr db'"
  shows "\<exists>k<length (products db). products db ! k = old \<and>
           products db' =
             (products db)[k := (if new = old then old else new\<lparr>updated_at := now env\<rparr>)]"
proof -
  from assms(2) obtain k where k: "k < length (products db)" "products db ! k = old"
    unfolding get_product_def by (auto dest: find_index)
  show ?thesis
  proof (cases "new = old")
    case True
    with k assms(3) show ?thesis by (auto simp: update_product_def intro!: exI [of _ k])
  next
    case False
    with k assms(3)
      map_update_distinct [OF assms(1) k(1), of "p_id old" "\<lambda>x. new\<lparr>updated_at := now env\<rparr>"]
    show ?thesis by (auto simp: update_product_def split: if_splits intro!: exI [of _ k])
  qed
qed

lemma update_stock_succeeds:
  assumes "sqlite_int (stock p - q)"
  shows "\<exists>db'. update_product env p (p\<lparr>stock := stock p - q\<rparr>) db = Inr db'"
  using assms by (simp add: update_product_def)

lemma sqlite_int_fits_float: "sqlite_int n \<Longrightarrow> int_fits_float n"
  by (simp add: sqlite_int_def int_fits_float_def abs_less_iff)

text \<open>
  The committing path of \<open>add_sale\<close> (lines 211 to 223): when the values the commit
  binds are storable, one sale is appended, and one product row changes, in its stock and
  (when the stock has a new value) in \<open>updated_at\<close>.
\<close>

lemma add_sale_commit:
  assumes "distinct (map p_id (products db))"
    and "get_product db pid = Some p"
    and "session_username sess = Some u"
    and "employee_by_username db u = Some e"
    and "q \<le> stock p"
    and "sqlite_int q" and "sqlite_int (stock p - q)"
    and "\<not> is_nan env (fmul env (price p) q)"
  shows "\<exists>db' ns k.
     handle env (AddSale POST \<lparr>f_product_id = Some pid, f_quantity = Some q\<rparr>) sess db =
       (flash_and SaleRecorded TagSuccess (Redirect EpSales), sess, db') \<and>
     sales db' = sales db @ [ns] \<and>
     quantity ns = q \<and> total_price ns = fmul env (price p) q \<and>
     product_id ns = pid \<and> employee_id ns = e_id e \<and>
     k < length (products db) \<and> products db ! k = p \<and>
     products db' = (products db)[k := p\<lparr>stock := stock p - q,
        updated_at := (if q = 0 then updated_at p else now env)\<rparr>] \<and>
     employees db' = employees db"
proof -
  obtain db1 where up: "update_product env p (p\<lparr>stock := stock p - q\<rparr>) db = Inr db1"
    using update_stock_succeeds [OF assms(7)] by blast
  obtain k where k: "k < length (products db)" "products db ! k = p"
     "products db1 =
        (products db)[k := (if p\<lparr>stock := stock p - q\<rparr> = p then p
            else p\<lparr>stock := stock p - q, updated_at := now env\<rparr>)]"
    using update_product_row [OF assms(1) assms(2) up] by auto
  have eq: "(p\<lparr>stock := stock p - q\<rparr> = p) = (q = 0)"
  proof
    assume "p\<lparr>stock := stock p - q\<rparr> = p"
    then have "stock (p\<lparr>stock := stock p - q\<rparr>) = stock p" by simp
    then show "q = 0" by simp
  next
    assume "q = 0" then show "p\<lparr>stock := stock p - q\<rparr> = p" by simp
  qed
  have row: "(if p\<lparr>stock := stock p - q\<rparr> = p then p
            else p\<lparr>stock := stock p - q, updated_at := now env\<rparr>) =
         p\<lparr>stock := stock p - q, updated_at := (if q = 0 then updated_at p else now env)\<rparr>"
    unfolding eq by simp
  let ?ns = "\<lparr>s_id = next_id (map s_id (sales db)), product_id = pid,
      employee_id = e_id e, quantity = q, total_price = fmul env (price p) q,
      sale_date = now env\<rparr>"
  let ?db' = "db1\<lparr>sales := sales db @ [?ns]\<rparr>"
  have fits: "int_fits_float q" using assms(6) by (rule sqlite_int_fits_float)
  have run: "handle env (AddSale POST \<lparr>f_product_id = Some pid, f_quantity = Some q\<rparr>) sess db =
       (flash_and SaleRecorded TagSuccess (Redirect EpSales), sess, ?db')"
    using assms(2-6,8) fits up by (simp add: login_required_def add_sale_def)
  have prods: "products ?db' = (products db)[k := p\<lparr>stock := stock p - q,
        updated_at := (if q = 0 then updated_at p else now env)\<rparr>]"
    using k(3) [unfolded row] by simp
  have emps: "employees ?db' = employees db"
    using update_product_frame [OF up] by simp
  show ?thesis
    apply (rule exI [of _ ?db'], rule exI [of _ ?ns], rule exI [of _ k])
    using run prods emps k(1,2) by simp
qed

subsection \<open>Recording a sale\<close>

text \<open>
  C1, as the code has it. In a database whose product keys are distinct, when the product
  of the submitted id exists, the employee of the session exists, the stock is at least
  the quantity, and moreover the quantity and the new stock are integers of 64 bits and
  \<open>price * quantity\<close> is not NaN, the request is answered with the success message
  and commits: exactly one sale is appended behind the sales there were, with the
  submitted quantity and the total \<open>price * quantity\<close>; exactly the row of that
  product changes, its stock lowered by the quantity (and \<open>updated_at\<close> refreshed);
  the other products and the employees are as before.
\<close>

theorem add_sale_creates_sale:
  assumes "distinct (map p_id (products db))"
    and "get_product db pid = Some p"
    and "session_username sess = Some u"
    and "employee_by_username db u = Some e"
    and "q \<le> stock p"
    and "sqlite_int q" and "sqlite_int (stock p - q)"
    and "\<not> is_nan env (fmul env (price p) q)"
  shows "\<exists>db' ns k.
     handle env (AddSale POST \<lparr>f_product_id = Some pid, f_quantity = Some q\<rparr>) sess db =
       (flash_and SaleRecorded TagSuccess (Redirect EpSales), sess, db') \<and>
     sales db' = sales db @ [ns] \<and>
     quantity ns = q \<and> total_price ns = fmul env (price p) q \<and>
     product_id ns = pid \<and> employee_id ns = e_id e \<and>
     k < length (products db) \<and> products db ! k = p \<and>
     products db' = (products db)[k := p\<lparr>stock := stock p - q,
        updated_at := (if q = 0 then updated_at p else now env)\<rparr>] \<and>
     employees db' = employees db"
  using assms by (rule add_sale_commit)

theorem add_sale_creates_sale_witness:
  "distinct (map p_id (products sample_store)) \<and>
   get_product sample_store 2 = Some mouse \<and>
   session_username alice_session = Some (py ''alice'') \<and>
   employee_by_username sample_store (py ''alice'') = Some alice \<and>
   4 \<le> stock mouse \<and>
   sqlite_int 4 \<and> sqlite_int (stock mouse - 4) \<and>
   \<not> is_nan sample_env (fmul sample_env (price mouse) 4) \<and>
   (\<exists>db' ns k.
     handle sample_env (AddSale POST \<lparr>f_product_id = Some 2, f_quantity = Some 4\<rparr>)
       alice_session sample_store =
       (flash_and SaleRecorded TagSuccess (Redirect EpSales), alice_session, db') \<and>
     sales db' = sales sample_store @ [ns] \<and>
     quantity ns = 4 \<and> total_price ns = fmul sample_env (price mouse) 4 \<and>
     product_id ns = 2 \<and> employee_id ns = e_id alice \<and>
     k < length (products sample_store) \<and> products sample_store ! k = mouse \<and>
     products db' = (products sample_store)[k := mouse\<lparr>stock := stock mouse - 4,
        updated_at := (if (4::int) = 0 then updated_at mouse else now sample_env)\<rparr>] \<and>
     employees db' = employees sample_store)"
proof -
  have h1: "distinct (map p_id (products sample_store))" by (simp add: sample_defs)
  have h2: "get_product sample_store 2 = Some mouse" by (simp add: sample_defs)
  have h3: "session_username alice_session = Some (py ''alice'')" by (simp add: sample_defs)
  have h4: "employee_by_username sample_store (py ''alice'') = Some alice"
    by (simp add: sample_defs)
  have h5: "4 \<le> stock mouse" by (simp add: sample_defs)
  have h6: "sqlite_int 4" by (simp add: sqlite_int_def)
  have h7: "sqlite_int (stock mouse - 4)" by (simp add: sqlite_int_def sample_defs)
  have h8: "\<not> is_nan sample_env (fmul sample_env (price mouse) 4)"
    by (simp add: sample_defs)
  from add_sale_creates_sale [OF h1 h2 h3 h4 h5 h6 h7 h8] h1 h2 h3 h4 h5 h6 h7 h8
  show ?thesis by blast
qed

text \<open>
  C1 as the specification states it asks only for an existing product, an existing
  employee of the session and a stock that is at least the quantity. Two requests meet
  that and create no sale. In the vault the gold (id 1) has stock 3 and an infinite
  price; for the quantity 0 the total is NaN and the commit fails with
  \<open>IntegrityError\<close>. In the sample shop the laptop (id 1) has stock 3; for the
  quantity \<open>- (2 ^ 63)\<close> the new stock \<open>3 + 2 ^ 63\<close> is no integer of 64 bits and
  the commit fails with \<open>OverflowError\<close>. Both leave the database as it was.
\<close>

theorem add_sale_creates_sale_counterexample:
  "get_product vault 1 = Some gold \<and>
   session_username alice_session = Some (py ''alice'') \<and>
   employee_by_username vault (py ''alice'') = Some alice \<and>
   0 \<le> stock gold \<and>
   handle ieee_env (AddSale POST \<lparr>f_product_id = Some 1, f_quantity = Some 0\<rparr>)
     alice_session vault = (Inl IntegrityError, alice_session, vault) \<and>
   get_product sample_store 1 = Some laptop \<and>
   employee_by_username sample_store (py ''alice'') = Some alice \<and>
   - 9223372036854775808 \<le> stock laptop \<and>
   handle sample_env
     (AddSale POST \<lparr>f_product_id = Some 1, f_quantity = Some (- 9223372036854775808)\<rparr>)
     alice_session sample_store = (Inl OverflowError, alice_session, sample_store)"
  by (simp add: sample_defs login_required_def add_sale_def update_product_def
      int_fits_float_def sqlite_int_def)

text \<open>
  C2. When the product exists and its stock is below the quantity, a logged-in request
  is answered with the insufficient-stock message and a redirect to the form; the
  database and the session are returned as they were.
\<close>

theorem add_sale_insufficient_stock:
  assumes "get_product db pid = Some p"
    and "session_username sess = Some u"
    and "stock p < q"
  shows "handle env (AddSale POST \<lparr>f_product_id = Some pid, f_quantity = Some q\<rparr>) sess db =
           (flash_and InsufficientStock TagError (Redirect EpAddSale), sess, db)"
  using assms by (simp add: login_required_def add_sale_def)

theorem add_sale_insufficient_stock_witness:
  "get_product sample_store 1 = Some laptop \<and>
   session_username alice_session = Some (py ''alice'') \<and>
   stock laptop < 4 \<and>
   handle sample_env (AddSale POST \<lparr>f_product_id = Some 1, f_quantity = Some 4\<rparr>)
     alice_session sample_store =
     (flash_and InsufficientStock TagError (Redirect EpAddSale), alice_session, sample_store)"
proof -
  have h1: "get_product sample_store 1 = Some laptop" by (simp add: sample_defs)
  have h2: "session_username alice_session = Some (py ''alice'')" by (simp add: sample_defs)
  have h3: "stock laptop < 4" by (simp add: sample_defs)
  from add_sale_insufficient_stock [OF h1 h2 h3, of sample_env] h1 h2 h3
  show ?thesis by blast
qed

text \<open>
  C10, as the code has it. The quantity has no lower bound of the handler's own. For a
  quantity \<open>q \<le> 0\<close> not above the stock, such that \<open>q\<close> and the new stock are
  integers of 64 bits and \<open>price * q\<close> is not NaN (and, as for every sale, distinct
  product keys and an existing employee of the session), the request commits a sale of
  quantity \<open>q\<close> and total \<open>price * q\<close>, and the stock of the product becomes
  \<open>stock + |q|\<close>: it does not go down.
\<close>

theorem add_sale_nonpositive_quantity:
  assumes "distinct (map p_id (products db))"
    and "get_product db pid = Some p"
    and "session_username sess = Some u"
    and "employee_by_username db u = Some e"
    and "q \<le> 0" and "q \<le> stock p"
    and "sqlite_int q" and "sqlite_int (stock p - q)"
    and "\<not> is_nan env (fmul env (price p) q)"
  shows "\<exists>db' ns k.
     handle env (AddSale POST \<lparr>f_product_id = Some pid, f_quantity = Some q\<rparr>) sess db =
       (flash_and SaleRecorded TagSuccess (Redirect EpSales), sess, db') \<and>
     sales db' = sales db @ [ns] \<and>
     quantity ns = q \<and> quantity ns \<le> 0 \<and> total_price ns = fmul env (price p) q \<and>
     k < length (products db) \<and> products db ! k = p \<and>
     length (products db') = length (products db) \<and>
     stock (products db' ! k) = stock p + \<bar>q\<bar> \<and>
     stock p \<le> stock (products db' ! k)"
proof -
  from add_sale_commit [OF assms(1-4) assms(6-9)]
  obtain db' ns k where r:
    "handle env (AddSale POST \<lparr>f_product_id = Some pid, f_quantity = Some q\<rparr>) sess db =
       (flash_and SaleRecorded TagSuccess (Redirect EpSales), sess, db')"
    "sales db' = sales db @ [ns]" "quantity ns = q"
    "total_price ns = fmul env (price p) q"
    "k < length (products db)" "products db ! k = p"
    "products db' = (products db)[k := p\<lparr>stock := stock p - q,
        updated_at := (if q = 0 then updated_at p else now env)\<rparr>]"
    by blast
  from r(5,7) have st: "stock (products db' ! k) = stock p - q" by simp
  from r(7) have len: "length (products db') = length (products db)" by simp
  show ?thesis
    apply (rule exI [of _ db'], rule exI [of _ ns], rule exI [of _ k])
    using r(1-6) st len assms(5) by simp
qed

theorem add_sale_nonpositive_quantity_witness:
  "distinct (map p_id (products sample_store)) \<and>
   get_product sample_store 1 = Some laptop \<and>
   session_username alice_session = Some (py ''alice'') \<and>
   employee_by_username sample_store (py ''alice'') = Some alice \<and>
   (- 5 :: int) \<le> 0 \<and> - 5 \<le> stock laptop \<and>
   sqlite_int (- 5) \<and> sqlite_int (stock laptop - (- 5)) \<and>
   \<not> is_nan sample_env (fmul sample_env (price laptop) (- 5)) \<and>
   (\<exists>db' ns k.
     handle sample_env (AddSale POST \<lparr>f_product_id = Some 1, f_quantity = Some (- 5)\<rparr>)
       alice_session sample_store =
       (flash_and SaleRecorded TagSuccess (Redirect EpSales), alice_session, db') \<and>
     sales db' = sales sample_store @ [ns] \<and>
     quantity ns = - 5 \<and> quantity ns \<le> 0 \<and>
     total_price ns = fmul sample_env (price laptop) (- 5) \<and>
     k < length (products sample_store) \<and> products sample_store ! k = laptop \<and>
     length (products db') = length (products sample_store) \<and>
     stock (products db' ! k) = stock laptop + \<bar>- 5\<bar> \<and>
     stock laptop \<le> stock (products db' ! k))"
proof -
  have h1: "distinct (map p_id (products sample_store))" by (simp add: sample_defs)
  have h2: "get_product sample_store 1 = Some laptop" by (simp add: sample_defs)
  have h3: "session_username alice_session = Some (py ''alice'')" by (simp add: sample_defs)
  have h4: "employee_by_username sample_store (py ''alice'') = Some alice"
    by (simp add: sample_defs)
  have h5: "(- 5 :: int) \<le> 0" by simp
  have h6: "- 5 \<le> stock laptop" by (simp add: sample_defs)
  have h7: "sqlite_int (- 5)" by (simp add: sqlite_int_def)
  have h8: "sqlite_int (stock laptop - (- 5))" by (simp add: sqlite_int_def sample_defs)
  have h9: "\<not> is_nan sample_env (fmul sample_env (price laptop) (- 5))"
    by (simp add: sample_defs)
  from add_sale_nonpositive_quantity [OF h1 h2 h3 h4 h5 h6 h7 h8 h9]
    h1 h2 h3 h4 h5 h6 h7 h8 h9
  show ?thesis by blast
qed

text \<open>
  C10 as the specification states it holds for every \<open>q \<le> 0\<close>. In the sample shop
  the mouse (id 2) has stock 10; for the quantity \<open>- (2 ^ 63)\<close>, the least integer of
  64 bits, the new stock \<open>10 + 2 ^ 63\<close> is out of range, the commit fails with
  \<open>OverflowError\<close>, and neither a sale is stored nor the stock raised. For the
  quantity 0 the gold of the vault, of infinite price, gives the total NaN: the commit
  fails with \<open>IntegrityError\<close> and no sale of quantity 0 is stored.
\<close>

theorem add_sale_nonpositive_quantity_counterexample:
  "get_product sample_store 2 = Some mouse \<and>
   session_username alice_session = Some (py ''alice'') \<and>
   employee_by_username sample_store (py ''alice'') = Some alice \<and>
   (- 9223372036854775808 :: int) \<le> 0 \<and> - 9223372036854775808 \<le> stock mouse \<and>
   handle sample_env
     (AddSale POST \<lparr>f_product_id = Some 2, f_quantity = Some (- 9223372036854775808)\<rparr>)
     alice_session sample_store = (Inl OverflowError, alice_session, sample_store) \<and>
   get_product vault 1 = Some gold \<and>
   employee_by_username vault (py ''alice'') = Some alice \<and>
   (0 :: int) \<le> 0 \<and> 0 \<le> stock gold \<and>
   handle ieee_env (AddSale POST \<lparr>f_product_id = Some 1, f_quantity = Some 0\<rparr>)
     alice_session vault = (Inl IntegrityError, alice_session, vault)"
  by (simp add: sample_defs login_required_def add_sale_def update_product_def
      int_fits_float_def sqlite_int_def)

subsection \<open>Deleting a product\<close>

text \<open>
  A product no sale refers to is removed by the request, and is then neither found by its
  id nor listed. A product some sale refers to is not removed: the request ends with
  \<open>IntegrityError\<close> and the database is as before.
\<close>

lemma get_product_id: "get_product db i = Some p \<Longrightarrow> p_id p = i"
  unfolding get_product_def by (auto dest: find_index)

lemma delete_product_referenced:
  assumes "get_product db i = Some p" and "session_username sess = Some u"
    and "s \<in> set (sales db)" and "product_id s = i"
  shows "handle env (DeleteProduct i) sess db = (Inl IntegrityError, sess, db)"
proof -
  from assms(1) have "p_id p = i"
    unfolding get_product_def by (auto dest: find_index)
  with assms show ?thesis
    by (auto simp: login_required_def delete_product_def list_ex_iff)
qed

lemma delete_product_unreferenced:
  assumes "get_product db i = Some p" and "session_username sess = Some u"
    and "\<forall>s \<in> set (sales db). product_id s \<noteq> i"
  shows "\<exists>db'. handle env (DeleteProduct i) sess db =
            (flash_and ProductDeleted TagSuccess (Redirect EpProducts), sess, db') \<and>
          get_product db' i = None \<and> i \<notin> p_id ` set (products db') \<and>
          products db' = filter (\<lambda>x. p_id x \<noteq> i) (products db) \<and>
          sales db' = sales db \<and> employees db' = employees db"
proof -
  from assms(1) have "p_id p = i"
    unfolding get_product_def by (auto dest: find_index)
  with assms show ?thesis
    by (auto simp: login_required_def delete_product_def list_ex_iff get_product_def find_None_iff)
qed

text \<open>
  C3. In the sample shop the laptop (id 1) has a recorded sale. The request to delete it,
  from a logged-in session, ends with \<open>IntegrityError\<close>; the database is unchanged
  and the laptop is still among the products. The deletion the handler attempts, and
  reports as done on line 189, does not take place for a product with sales.
\<close>

theorem delete_product_with_sales_fails:
  "get_product sample_store 1 = Some laptop \<and>
   first_sale \<in> set (sales sample_store) \<and> product_id first_sale = 1 \<and>
   handle sample_env (DeleteProduct 1) alice_session sample_store =
     (Inl IntegrityError, alice_session, sample_store) \<and>
   laptop \<in> set (products (snd (snd (handle sample_env (DeleteProduct 1) alice_session sample_store))))"
  by (simp add: sample_defs login_required_def delete_product_def)

subsection \<open>Registration\<close>










lemma validate_password_True: "fst (validate_password s) \<Longrightarrow> validate_password s = (True, PasswordSafe)"
  by (simp add: validate_password_def split: if_splits)

lemma validate_password_False: "\<not> fst (validate_password s) \<Longrightarrow> validate_password s = (False, snd (validate_password s))"
  by (simp add: validate_password_def split: if_splits)



lemma register_frame:
  "register env m form sess db = (res, sess', db') \<Longrightarrow>
     sess' = sess \<and> products db' = products db \<and> sales db' = sales db"
  by (auto simp: register_def split: if_splits prod.splits)

lemma find_eq_None_image: "find (\<lambda>e. f e = v) xs = None \<longleftrightarrow> v \<notin> f ` set xs"
  by (induction xs) auto

lemma employee_by_username_None:
  "employee_by_username db u = None \<longleftrightarrow> u \<notin> username ` set (employees db)"
  unfolding employee_by_username_def by (rule find_eq_None_image)

lemma employee_by_email_None:
  "employee_by_email db u = None \<longleftrightarrow> u \<notin> email ` set (employees db)"
  unfolding employee_by_email_def by (rule find_eq_None_image)

lemma register_unique:
  assumes "register env m form sess db = (res, sess', db')"
  shows "distinct (map username (employees db)) \<Longrightarrow> distinct (map username (employees db'))"
    and "distinct (map email (employees db)) \<Longrightarrow> distinct (map email (employees db'))"
    and "distinct (map e_id (employees db)) \<Longrightarrow> distinct (map e_id (employees db'))"
  using assms next_id_fresh [of "map e_id (employees db)"]
  by (auto simp: register_def employee_by_username_None employee_by_email_None
      split: if_splits prod.splits)

text \<open>
  C5. With a password that passes the policy and matches its confirmation, a
  registration whose username or email belongs to a stored employee is answered with
  the username-taken message (when the username is taken) or else the email-taken
  message, and the database is returned unchanged. Whatever a registration request
  submits, distinct usernames and distinct emails stay distinct.
\<close>

theorem register_duplicate_rejected:
  assumes "fst (validate_password (r_password form))"
    and "r_password form = r_confirm_password form"
    and "\<exists>e \<in> set (employees db). username e = r_username form \<or> email e = r_email form"
  shows "handle env (Register POST form) sess db =
           (flash_and (if r_username form \<in> username ` set (employees db)
                       then UsernameTaken else EmailTaken) TagError (Redirect EpRegister),
            sess, db) \<and>
         (\<forall>m' form'.
            distinct (map username (employees db)) \<and> distinct (map email (employees db)) \<longrightarrow>
            distinct (map username (employees (snd (snd (handle env (Register m' form') sess db))))) \<and>
            distinct (map email (employees (snd (snd (handle env (Register m' form') sess db))))))"
proof (intro conjI allI impI)
  from assms(1) have v: "validate_password (r_password form) = (True, PasswordSafe)"
    by (rule validate_password_True)
  have u: "employee_by_username db (r_username form) \<noteq> None \<longleftrightarrow>
           r_username form \<in> username ` set (employees db)"
    by (simp add: employee_by_username_None)
  have m: "r_username form \<notin> username ` set (employees db) \<Longrightarrow>
           employee_by_email db (r_email form) \<noteq> None"
    using assms(3) unfolding employee_by_email_None by force
  show "handle env (Register POST form) sess db =
           (flash_and (if r_username form \<in> username ` set (employees db)
                       then UsernameTaken else EmailTaken) TagError (Redirect EpRegister),
            sess, db)"
    using v assms(2) u m by (auto simp: register_def)
next
  fix m' form'
  assume d: "distinct (map username (employees db)) \<and> distinct (map email (employees db))"
  obtain res s' db' where r: "register env m' form' sess db = (res, s', db')"
    by (cases "register env m' form' sess db") auto
  from register_unique(1,2) [OF r] d r
  show "distinct (map username (employees (snd (snd (handle env (Register m' form') sess db)))))"
    and "distinct (map email (employees (snd (snd (handle env (Register m' form') sess db)))))"
    by simp_all
qed

theorem register_duplicate_rejected_witness:
  "fst (validate_password (r_password (signup (py ''alice'') (py ''Passw0rd'') (py ''a2@shop'')))) \<and>
   r_password (signup (py ''alice'') (py ''Passw0rd'') (py ''a2@shop'')) =
     r_confirm_password (signup (py ''alice'') (py ''Passw0rd'') (py ''a2@shop'')) \<and>
   (\<exists>e \<in> set (employees sample_store).
      username e = r_username (signup (py ''alice'') (py ''Passw0rd'') (py ''a2@shop'')) \<or>
      email e = r_email (signup (py ''alice'') (py ''Passw0rd'') (py ''a2@shop''))) \<and>
   handle sample_env (Register POST (signup (py ''alice'') (py ''Passw0rd'') (py ''a2@shop'')))
     no_session sample_store =
     (flash_and UsernameTaken TagError (Redirect EpRegister), no_session, sample_store) \<and>
   distinct (map username (employees sample_store)) \<and>
   distinct (map email (employees sample_store)) \<and>
   distinct (map username (employees (snd (snd (handle sample_env
      (Register POST (signup (py ''bob'') (py ''Passw0rd'') (py ''bob@shop'')))
      no_session sample_store))))) \<and>
   distinct (map email (employees (snd (snd (handle sample_env
      (Register POST (signup (py ''bob'') (py ''Passw0rd'') (py ''bob@shop'')))
      no_session sample_store)))))"
proof -
  let ?f = "signup (py ''alice'') (py ''Passw0rd'') (py ''a2@shop'')"
  have h1: "fst (validate_password (r_password ?f))"
    by (simp add: signup_def validate_password_def re_search_class_def py_def)
  have h2: "r_password ?f = r_confirm_password ?f" by (simp add: signup_def)
  have h3: "\<exists>e \<in> set (employees sample_store).
      username e = r_username ?f \<or> email e = r_email ?f"
    by (simp add: signup_def sample_defs)
  have u: "r_username ?f \<in> username ` set (employees sample_store)"
    by (simp add: signup_def sample_defs)
  have d: "distinct (map username (employees sample_store))"
    "distinct (map email (employees sample_store))"
    by (simp_all add: sample_defs)
  from register_duplicate_rejected [OF h1 h2 h3, of sample_env no_session] h1 h2 h3 u d
  show ?thesis by simp
qed

subsection \<open>Login\<close>

text \<open>
  C6. A login with a username no employee has, and a login with the username of an
  employee whose stored hash rejects the password, are answered alike: the one
  invalid-credentials message and the login page, with the session and the database of
  each run unchanged. The two runs may start from different sessions and databases.
\<close>

theorem login_failures_indistinguishable:
  assumes "employee_by_username db1 (l_username f1) = None"
    and "employee_by_username db2 (l_username f2) = Some e"
    and "\<not> check_password_hash env2 (password_hash e) (l_password f2)"
  shows "handle env1 (Login POST f1) sess1 db1 =
           (flash_and InvalidCredentials TagError (Render LoginView), sess1, db1) \<and>
         handle env2 (Login POST f2) sess2 db2 =
           (flash_and InvalidCredentials TagError (Render LoginView), sess2, db2) \<and>
         fst (handle env1 (Login POST f1) sess1 db1) = fst (handle env2 (Login POST f2) sess2 db2)"
  using assms by (simp add: login_def)

theorem login_failures_indistinguishable_witness:
  "employee_by_username sample_store
     (l_username \<lparr>l_username = py ''bob'', l_password = py ''Passw0rd''\<rparr>) = None \<and>
   employee_by_username sample_store
     (l_username \<lparr>l_username = py ''alice'', l_password = py ''password''\<rparr>) = Some alice \<and>
   \<not> check_password_hash sample_env (password_hash alice)
       (l_password \<lparr>l_username = py ''alice'', l_password = py ''password''\<rparr>) \<and>
   handle sample_env (Login POST \<lparr>l_username = py ''bob'', l_password = py ''Passw0rd''\<rparr>)
     no_session sample_store =
     (flash_and InvalidCredentials TagError (Render LoginView), no_session, sample_store) \<and>
   handle sample_env (Login POST \<lparr>l_username = py ''alice'', l_password = py ''password''\<rparr>)
     no_session sample_store =
     (flash_and InvalidCredentials TagError (Render LoginView), no_session, sample_store) \<and>
   fst (handle sample_env (Login POST \<lparr>l_username = py ''bob'', l_password = py ''Passw0rd''\<rparr>)
          no_session sample_store) =
   fst (handle sample_env (Login POST \<lparr>l_username = py ''alice'', l_password = py ''password''\<rparr>)
          no_session sample_store)"
proof -
  let ?f1 = "\<lparr>l_username = py ''bob'', l_password = py ''Passw0rd''\<rparr>"
  let ?f2 = "\<lparr>l_username = py ''alice'', l_password = py ''password''\<rparr>"
  have h1: "employee_by_username sample_store (l_username ?f1) = None"
    by (simp add: sample_defs)
  have h2: "employee_by_username sample_store (l_username ?f2) = Some alice"
    by (simp add: sample_defs)
  have h3: "\<not> check_password_hash sample_env (password_hash alice) (l_password ?f2)"
    by (simp add: sample_defs)
  from login_failures_indistinguishable
         [OF h1 h2 h3, of sample_env no_session no_session] h1 h2 h3
  show ?thesis by blast
qed

text \<open>
  C7. When the employee keys are distinct, the username is that of a stored employee and
  the password verifies against the stored hash, the login request stores the username
  in the session, redirects to the dashboard with the success message, and changes the
  database in one place only: the row of that employee gets \<open>last_login = now\<close>.
  All other fields of the row, all other employees, the products and the sales are as
  before.
\<close>

theorem login_success:
  assumes "distinct (map e_id (employees db))"
    and "employee_by_username db (l_username f) = Some e"
    and "check_password_hash env (password_hash e) (l_password f)"
  shows "\<exists>k<length (employees db). employees db ! k = e \<and> username e = l_username f \<and>
     handle env (Login POST f) sess db =
       (flash_and LoginSucceeded TagSuccess (Redirect EpHome),
        sess\<lparr>session_username := Some (l_username f), permanent := True\<rparr>,
        db\<lparr>employees := (employees db)[k := e\<lparr>last_login := Some (now env)\<rparr>]\<rparr>)"
proof -
  from assms(2) obtain k where k: "k < length (employees db)" "employees db ! k = e"
    "username e = l_username f"
    unfolding employee_by_username_def by (auto dest: find_index)
  from k have "e_id (employees db ! k) = e_id e" by simp
  from map_update_distinct [OF assms(1) k(1) this, of "\<lambda>x. x\<lparr>last_login := Some (now env)\<rparr>"] k(2)
  have "map (\<lambda>x. if e_id x = e_id e then x\<lparr>last_login := Some (now env)\<rparr> else x) (employees db)
      = (employees db)[k := e\<lparr>last_login := Some (now env)\<rparr>]" by simp
  with assms(2,3) k show ?thesis
    by (auto simp: login_def intro!: exI [of _ k])
qed

theorem login_success_witness:
  "distinct (map e_id (employees sample_store)) \<and>
   employee_by_username sample_store
     (l_username \<lparr>l_username = py ''alice'', l_password = py ''Passw0rd''\<rparr>) = Some alice \<and>
   check_password_hash sample_env (password_hash alice)
     (l_password \<lparr>l_username = py ''alice'', l_password = py ''Passw0rd''\<rparr>) \<and>
   handle sample_env (Login POST \<lparr>l_username = py ''alice'', l_password = py ''Passw0rd''\<rparr>)
     no_session sample_store =
     (flash_and LoginSucceeded TagSuccess (Redirect EpHome),
      \<lparr>session_username = Some (py ''alice''), permanent = True\<rparr>,
      sample_store\<lparr>employees := [alice\<lparr>last_login := Some 1000\<rparr>]\<rparr>)"
proof -
  let ?f = "\<lparr>l_username = py ''alice'', l_password = py ''Passw0rd''\<rparr>"
  have h1: "distinct (map e_id (employees sample_store))" by (simp add: sample_defs)
  have h2: "employee_by_username sample_store (l_username ?f) = Some alice"
    by (simp add: sample_defs)
  have h3: "check_password_hash sample_env (password_hash alice) (l_password ?f)"
    by (simp add: sample_defs)
  from login_success [OF h1 h2 h3, of no_session]
  obtain k where k: "k < length (employees sample_store)"
    "handle sample_env (Login POST ?f) no_session sample_store =
       (flash_and LoginSucceeded TagSuccess (Redirect EpHome),
        no_session\<lparr>session_username := Some (l_username ?f), permanent := True\<rparr>,
        sample_store\<lparr>employees :=
          (employees sample_store)[k := alice\<lparr>last_login := Some (now sample_env)\<rparr>]\<rparr>)"
    by blast
  from k(1) have "k = 0" by (simp add: sample_store_def)
  with k(2) have "handle sample_env (Login POST ?f) no_session sample_store =
     (flash_and LoginSucceeded TagSuccess (Redirect EpHome),
      \<lparr>session_username = Some (py ''alice''), permanent = True\<rparr>,
      sample_store\<lparr>employees := [alice\<lparr>last_login := Some 1000\<rparr>]\<rparr>)"
    by (simp add: sample_store_def no_session_def sample_env_def)
  with h1 h2 h3 show ?thesis by blast
qed

subsection \<open>The access gate\<close>

text \<open>
  C8. A request to a protected route (dashboard, product list, add, edit and delete,
  sales list, sale add) from a session without a username is answered with the notice
  and a redirect to the login page; session and database are returned as they were, and
  the reply is the same whatever the database holds.
\<close>

theorem protected_requires_session:
  assumes "protected r" and "session_username sess = None"
  shows "handle env r sess db = (flash_and PleaseLogIn TagError (Redirect EpLogin), sess, db) \<and>
         fst (handle env r sess db2) = fst (handle env r sess db)"
  using assms by (cases r) (simp_all add: login_required_def)

theorem protected_requires_session_witness:
  "protected (DeleteProduct 1 :: int request) \<and>
   session_username no_session = None \<and>
   handle sample_env (DeleteProduct 1) no_session sample_store =
     (flash_and PleaseLogIn TagError (Redirect EpLogin), no_session, sample_store) \<and>
   fst (handle sample_env (DeleteProduct 1) no_session
          \<lparr>employees = [], products = [], sales = []\<rparr>) =
   fst (handle sample_env (DeleteProduct 1) no_session sample_store)"
proof -
  have h1: "protected (DeleteProduct 1 :: int request)" by simp
  have h2: "session_username no_session = None" by (simp add: no_session_def)
  from protected_requires_session
         [OF h1 h2, of sample_env sample_store "\<lparr>employees = [], products = [], sales = []\<rparr>"]
       h1 h2
  show ?thesis by blast
qed

subsection \<open>Sales are never changed\<close>

text \<open>
  C9. Whatever the request, the sales before it are an initial segment of the sales after
  it: no row is edited or deleted. A request other than the sale form leaves the sales
  exactly as they were.
\<close>

theorem sales_are_immutable:
  assumes "handle env r sess db = (res, sess', db')"
  shows "prefix (sales db) (sales db') \<and>
         ((\<forall>m form. r \<noteq> AddSale m form) \<longrightarrow> sales db' = sales db)"
  using assms
  by (cases r)
     (auto simp: login_required_def home_def login_def register_def products_page_def
        add_product_def edit_product_def delete_product_def sales_page_def add_sale_def
        logout_def
      dest: update_product_frame
      split: if_splits option.splits prod.splits sum.splits)

theorem sales_are_immutable_witness:
  "handle sample_env (DeleteProduct 2) alice_session sample_store =
     (flash_and ProductDeleted TagSuccess (Redirect EpProducts), alice_session,
      sample_store\<lparr>products := [laptop]\<rparr>) \<and>
   prefix (sales sample_store) (sales (sample_store\<lparr>products := [laptop]\<rparr>)) \<and>
   sales (sample_store\<lparr>products := [laptop]\<rparr>) = sales sample_store"
proof -
  have h: "handle sample_env (DeleteProduct 2) alice_session sample_store =
     (flash_and ProductDeleted TagSuccess (Redirect EpProducts), alice_session,
      sample_store\<lparr>products := [laptop]\<rparr>)"
    by (simp add: sample_defs login_required_def delete_product_def)
  from sales_are_immutable [OF h] h show ?thesis by simp
qed

subsection \<open>What every request preserves\<close>

text \<open>
  The hypotheses of the theorems above hold in every database the application reaches:
  the declared keys and unique columns stay distinct, and the user of a session stays a
  registered employee.
\<close>

lemma login_usernames:
  "login env m f sess db = (res, sess', db') \<Longrightarrow>
     map e_id (employees db') = map e_id (employees db) \<and>
     map username (employees db') = map username (employees db) \<and>
     map email (employees db') = map email (employees db) \<and>
     products db' = products db \<and> sales db' = sales db"
  by (auto simp: login_def split: if_splits option.splits)

lemma login_username_set:
  assumes "login env m f sess db = (res, sess', db')"
  shows "username ` set (employees db') = username ` set (employees db)"
proof -
  from login_usernames [OF assms]
  have "set (map username (employees db')) = set (map username (employees db))" by simp
  then show ?thesis by (simp only: set_map)
qed

lemma login_valid_store:
  "valid_store db \<Longrightarrow> login env m f sess db = (res, sess', db') \<Longrightarrow> valid_store db'"
  by (drule login_usernames) (simp add: valid_store_def)

lemma register_valid_store:
  "valid_store db \<Longrightarrow> register env m f sess db = (res, sess', db') \<Longrightarrow> valid_store db'"
  using register_unique [of env m f sess db res sess' db'] register_frame [of env m f sess db res sess' db']
  by (simp add: valid_store_def)

lemma add_product_valid_store:
  "valid_store db \<Longrightarrow> add_product env m f sess db = (res, sess', db') \<Longrightarrow> valid_store db'"
  using next_id_fresh [of "map p_id (products db)"]
  by (auto simp: add_product_def valid_store_def split: if_splits option.splits)

lemma update_product_valid_store:
  assumes "valid_store db" and "p_id new = p_id old"
    and "update_product env old new db = Inr db'"
  shows "valid_store db'"
  using assms(1) update_product_frame [OF assms(3)] update_product_ids [OF assms(2,3)]
  by (simp add: valid_store_def)

lemma edit_product_valid_store:
  "valid_store db \<Longrightarrow> edit_product env i m f sess db = (res, sess', db') \<Longrightarrow> valid_store db'"
  by (auto simp: edit_product_def dest: update_product_valid_store [rotated 2]
      split: if_splits option.splits sum.splits)

lemma delete_product_valid_store:
  "valid_store db \<Longrightarrow> delete_product i sess db = (res, sess', db') \<Longrightarrow> valid_store db'"
  by (auto simp: delete_product_def valid_store_def distinct_map_filter
      split: if_splits option.splits)

lemma add_sale_valid_store:
  assumes "valid_store db" and "add_sale env m f sess db = (res, sess', db')"
  shows "valid_store db'"
proof (cases "db' = db")
  case True
  with assms(1) show ?thesis by simp
next
  case False
  with assms(2) obtain p q db1 ns where
    up: "update_product env p (p\<lparr>stock := stock p - q\<rparr>) db = Inr db1"
    and db': "db' = db1\<lparr>sales := sales db @ [ns]\<rparr>"
    and ns: "s_id ns = next_id (map s_id (sales db))"
    by (auto simp: add_sale_def split: if_splits option.splits sum.splits)
  from update_product_valid_store [OF assms(1) _ up] have v: "valid_store db1" by simp
  from update_product_frame [OF up] have "sales db1 = sales db" by simp
  with v db' ns next_id_fresh [of "map s_id (sales db)"] show ?thesis
    by (auto simp: valid_store_def)
qed

lemma handle_valid_store:
  assumes "valid_store db" and "handle env r sess db = (res, sess', db')"
  shows "valid_store db'"
proof (cases r)
  case Home
  with assms show ?thesis
    by (auto simp: login_required_def home_def split: if_splits option.splits)
next
  case (Login m f)
  with assms show ?thesis by (auto dest: login_valid_store)
next
  case (Register m f)
  with assms show ?thesis by (auto dest: register_valid_store)
next
  case Products
  with assms show ?thesis
    by (auto simp: login_required_def products_page_def split: if_splits)
next
  case (AddProduct m f)
  with assms show ?thesis
    by (auto simp: login_required_def dest: add_product_valid_store split: if_splits)
next
  case (EditProduct i m f)
  with assms show ?thesis
    by (auto simp: login_required_def dest: edit_product_valid_store split: if_splits)
next
  case (DeleteProduct i)
  with assms show ?thesis
    by (auto simp: login_required_def dest: delete_product_valid_store split: if_splits)
next
  case Sales
  with assms show ?thesis
    by (auto simp: login_required_def sales_page_def split: if_splits)
next
  case (AddSale m f)
  with assms show ?thesis
    by (auto simp: login_required_def dest: add_sale_valid_store split: if_splits)
next
  case Logout
  with assms show ?thesis by (auto simp: logout_def)
qed

lemma employee_by_username_known:
  "(\<exists>e. employee_by_username db u = Some e) \<longleftrightarrow> u \<in> username ` set (employees db)"
  using employee_by_username_None [of db u] by auto

lemma handle_usernames:
  assumes "handle env r sess db = (res, sess', db')"
  shows "username ` set (employees db) \<subseteq> username ` set (employees db')"
proof (cases r)
  case (Login m f)
  with assms show ?thesis by (auto dest!: login_username_set)
qed (use assms in \<open>auto simp: login_required_def home_def register_def products_page_def
        add_product_def edit_product_def delete_product_def sales_page_def add_sale_def
        logout_def dest: update_product_frame
        split: if_splits option.splits prod.splits sum.splits\<close>)

lemma handle_session_known:
  assumes "session_known sess db" and "handle env r sess db = (res, sess', db')"
  shows "session_known sess' db'"
proof -
  have keep: "sess' = sess \<Longrightarrow> ?thesis"
    using assms(1) handle_usernames [OF assms(2)]
    by (auto simp: session_known_def employee_by_username_known split: option.splits)
  show ?thesis
  proof (cases r)
    case (Login m f)
    show ?thesis
    proof (cases "sess' = sess")
      case True then show ?thesis by (rule keep)
    next
      case False
      with assms(2) Login have "session_username sess' = Some (l_username f)"
        and "employee_by_username db (l_username f) \<noteq> None"
        by (auto simp: login_def split: if_splits option.splits)
      with handle_usernames [OF assms(2)] show ?thesis
        by (auto simp: session_known_def employee_by_username_known)
    qed
  next
    case Logout
    with assms(2) show ?thesis by (auto simp: logout_def session_known_def)
  next
    case Home
    with assms(2) have "sess' = sess"
      by (auto simp: login_required_def home_def split: if_splits option.splits)
    then show ?thesis by (rule keep)
  next
    case (Register m f)
    with assms(2) have "sess' = sess" by (auto dest: register_frame)
    then show ?thesis by (rule keep)
  next
    case Products
    with assms(2) have "sess' = sess"
      by (auto simp: login_required_def products_page_def split: if_splits)
    then show ?thesis by (rule keep)
  next
    case (AddProduct m f)
    with assms(2) have "sess' = sess"
      by (auto simp: login_required_def add_product_def split: if_splits option.splits sum.splits)
    then show ?thesis by (rule keep)
  next
    case (EditProduct i m f)
    with assms(2) have "sess' = sess"
      by (auto simp: login_required_def edit_product_def split: if_splits option.splits sum.splits)
    then show ?thesis by (rule keep)
  next
    case (DeleteProduct i)
    with assms(2) have "sess' = sess"
      by (auto simp: login_required_def delete_product_def split: if_splits option.splits)
    then show ?thesis by (rule keep)
  next
    case Sales
    with assms(2) have "sess' = sess"
      by (auto simp: login_required_def sales_page_def split: if_splits)
    then show ?thesis by (rule keep)
  next
    case (AddSale m f)
    with assms(2) have "sess' = sess"
      by (auto simp: login_required_def add_sale_def split: if_splits option.splits sum.splits)
    then show ?thesis by (rule keep)
  qed
qed

end
